theory Spec2Isabelle
  imports Main
begin

section \<open>Python values used by the scripts\<close>

text \<open>
  A Python \<open>str\<close> is a sequence of Unicode code points; the diagnostics of the scripts
  contain code points beyond ASCII and \<open>json.dumps\<close> escapes by code point, so a string
  is a list of code points. \<open>ascii\<close> embeds an ASCII literal.
\<close>

type_synonym pystr = "nat list"

definition ascii :: "string \<Rightarrow> pystr" where
  "ascii s = map of_char s"

text \<open>
  Exceptions. Every failure of a collaborator is an instance of \<open>Exception\<close> whose
  \<open>str()\<close> is the carried message; \<open>KeyError\<close> and \<open>TypeError\<close> are the ones the
  scripts' own subscripting can raise.
\<close>

datatype exn = Exception pystr | KeyError string | TypeError pystr

fun str :: "exn \<Rightarrow> pystr" where
  "str (Exception m) = m"
| "str (KeyError k) = [39] @ ascii k @ [39]"
| "str (TypeError m) = m"

text \<open>The values the scripts build: booleans, strings and dicts in insertion order.\<close>

datatype pyval = PBool bool | PStr pystr | PDict "(string \<times> pyval) list"

fun truthy :: "pyval \<Rightarrow> bool" where
  "truthy (PBool b) = b"
| "truthy (PStr s) = (s \<noteq> [])"
| "truthy (PDict kvs) = (kvs \<noteq> [])"

text \<open>\<open>d[k]\<close>: \<open>KeyError\<close> on a missing key, \<open>TypeError\<close> on a value that is no dict.\<close>

fun subscript :: "pyval \<Rightarrow> string \<Rightarrow> exn + pyval" where
  "subscript (PDict kvs) k =
     (case map_of kvs k of None \<Rightarrow> Inl (KeyError k) | Some v \<Rightarrow> Inr v)"
| "subscript (PBool b) k = Inl (TypeError ([39] @ ascii ''bool'' @ [39] @ ascii '' object is not subscriptable''))"
| "subscript (PStr s) k = Inl (TypeError (ascii ''string indices must be integers, not '' @ [39] @ ascii ''str'' @ [39]))"

section \<open>\<open>json.dumps(obj, indent=2)\<close>\<close>

text \<open>
  The standard library's encoder with its defaults (\<open>ensure_ascii=True\<close>): inside a
  string, the quote and the backslash are escaped, the control characters have their
  short escapes, every other code point outside \<open>' '..'~'\<close> becomes \<open>\uXXXX\<close> in
  lower-case hexadecimal, as a surrogate pair beyond the basic plane. With an indent,
  items are separated by a comma and a newline, keys from values by \<open>': '\<close>.
\<close>

definition hex_digit :: "nat \<Rightarrow> nat" where
  "hex_digit d = (if d < 10 then 48 + d else 87 + d)"

definition hex4 :: "nat \<Rightarrow> pystr" where
  "hex4 n = [hex_digit (n div 4096 mod 16), hex_digit (n div 256 mod 16),
             hex_digit (n div 16 mod 16), hex_digit (n mod 16)]"

definition u_escape :: "nat \<Rightarrow> pystr" where
  "u_escape n = [92, 117] @ hex4 n"

definition escape_char :: "nat \<Rightarrow> pystr" where
  "escape_char c =
     (if c = 34 then [92, 34]
      else if c = 92 then [92, 92]
      else if c = 10 then [92, 110]
      else if c = 13 then [92, 114]
      else if c = 9 then [92, 116]
      else if c = 8 then [92, 98]
      else if c = 12 then [92, 102]
      else if 32 \<le> c \<and> c \<le> 126 then [c]
      else if c < 65536 then u_escape c
      else u_escape (55296 + (c - 65536) div 1024 mod 1024)
           @ u_escape (56320 + (c - 65536) mod 1024))"

definition encode_basestring_ascii :: "pystr \<Rightarrow> pystr" where
  "encode_basestring_ascii s = [34] @ concat (map escape_char s) @ [34]"

definition newline_indent :: "nat \<Rightarrow> pystr" where
  "newline_indent level = [10] @ replicate (2 * level) 32"

fun join :: "pystr \<Rightarrow> pystr list \<Rightarrow> pystr" where
  "join sep [] = []"
| "join sep [x] = x"
| "join sep (x # y # ys) = x @ sep @ join sep (y # ys)"

fun iterencode :: "nat \<Rightarrow> pyval \<Rightarrow> pystr" where
  "iterencode level (PBool b) = (if b then ascii ''true'' else ascii ''false'')"
| "iterencode level (PStr s) = encode_basestring_ascii s"
| "iterencode level (PDict kvs) =
     (if kvs = [] then ascii ''{}''
      else ascii ''{'' @ newline_indent (Suc level)
           @ join (ascii '','' @ newline_indent (Suc level))
               (map (\<lambda>kv. encode_basestring_ascii (ascii (fst kv)) @ ascii '': ''
                            @ iterencode (Suc level) (snd kv)) kvs)
           @ newline_indent level @ ascii ''}'')"

definition json_dumps :: "pyval \<Rightarrow> pystr" where
  "json_dumps obj = iterencode 0 obj"

section \<open>The remote platform and the effects of a run\<close>

text \<open>
  The \<open>ee\<close> library is the collaborator. Its objects are opaque handles; each call
  either raises or returns. The response of \<open>getMapId\<close> is a dict whose entries
  \<open>'tile_fetcher'\<close> (an object with the attribute \<open>url_format\<close>) and \<open>'mapid'\<close> may be
  absent. \<open>CREDENTIALS_PATH\<close> is computed from the location of the script, so it belongs
  to the world the script runs in. \<open>str_dict\<close> is the text Python's built-in \<open>str()\<close>
  gives for a dict, taken as given. A response depends on the arguments of the call
  only; within one run the scripts never make the same call twice.
\<close>

datatype credentials = Credentials nat
datatype feature_collection = Collection nat
datatype styled_layer = Layer nat

record style_params =
  color :: pystr
  width :: int
  fillColor :: pystr

record tile_fetcher =
  url_format :: pystr

record map_id_dict =
  tile_fetcher :: "tile_fetcher option"
  mapid :: "pystr option"

record world =
  CREDENTIALS_PATH :: pystr
  ServiceAccountCredentials :: "pystr \<Rightarrow> pystr \<Rightarrow> exn + credentials"
  Initialize :: "credentials \<Rightarrow> pystr \<Rightarrow> exn + unit"
  FeatureCollection :: "pystr \<Rightarrow> exn + feature_collection"
  style :: "feature_collection \<Rightarrow> style_params \<Rightarrow> exn + styled_layer"
  getMapId :: "styled_layer \<Rightarrow> exn + map_id_dict"
  str_dict :: "(string \<times> pyval) list \<Rightarrow> pystr"

text \<open>
  What a run does, in order: each \<open>print\<close> with the text it is given and the stream
  it goes to, and each call of the platform with its arguments and its response.
\<close>

datatype effect =
    PrintOut pystr
  | PrintErr pystr
  | CallServiceAccountCredentials pystr pystr "exn + credentials"
  | CallInitialize credentials pystr "exn + unit"
  | CallFeatureCollection pystr "exn + feature_collection"
  | CallStyle feature_collection style_params "exn + styled_layer"
  | CallGetMapId styled_layer "exn + map_id_dict"

fun is_call :: "effect \<Rightarrow> bool" where
  "is_call (PrintOut t) = False"
| "is_call (PrintErr t) = False"
| "is_call e = True"

fun is_resolver_call :: "effect \<Rightarrow> bool" where
  "is_resolver_call (CallFeatureCollection i r) = True"
| "is_resolver_call (CallStyle c p r) = True"
| "is_resolver_call (CallGetMapId l r) = True"
| "is_resolver_call e = False"

fun stdout :: "effect list \<Rightarrow> pystr list" where
  "stdout [] = []"
| "stdout (PrintOut t # es) = t # stdout es"
| "stdout (e # es) = stdout es"

fun stderr :: "effect list \<Rightarrow> pystr list" where
  "stderr [] = []"
| "stderr (PrintErr t # es) = t # stderr es"
| "stderr (e # es) = stderr es"

definition calls :: "effect list \<Rightarrow> effect list" where
  "calls es = filter is_call es"

fun fetched :: "effect list \<Rightarrow> pystr list" where
  "fetched [] = []"
| "fetched (CallFeatureCollection i r # es) = i # fetched es"
| "fetched (e # es) = fetched es"

section \<open>The scripts\<close>

subsection \<open>Configuration constants\<close>

definition SERVICE_ACCOUNT :: pystr where
  "SERVICE_ACCOUNT = ascii ''882446104421-compute@developer.gserviceaccount.com''"

definition PROJECT_ID :: pystr where
  "PROJECT_ID = ascii ''msads-mba-autumn-2025-team-1''"

definition TRACTS_ID :: pystr where
  "TRACTS_ID = ascii ''TIGER/2010/Tracts_DP1''"

definition BG_ID :: pystr where
  "BG_ID = ascii ''TIGER/2010/BG''"

definition BLOCKGROUPS_ID :: pystr where
  "BLOCKGROUPS_ID = ascii ''TIGER/2010/BlockGroups''"

definition BLOCKS_ID :: pystr where
  "BLOCKS_ID = ascii ''TIGER/2010/Blocks_DP1''"

definition tracts_style :: style_params where
  "tracts_style = \<lparr>color = ascii ''1f77b4'', width = 1, fillColor = ascii ''00000000''\<rparr>"

definition block_groups_style :: style_params where
  "block_groups_style = \<lparr>color = ascii ''9333ea'', width = 1, fillColor = ascii ''00000000''\<rparr>"

subsection \<open>\<open>authenticate_gee\<close> (the same in both scripts)\<close>

definition authenticate_gee :: "world \<Rightarrow> bool \<times> effect list" where
  "authenticate_gee w =
     (let r1 = ServiceAccountCredentials w SERVICE_ACCOUNT (CREDENTIALS_PATH w) in
      case r1 of
        Inl e \<Rightarrow>
          (False,
           [CallServiceAccountCredentials SERVICE_ACCOUNT (CREDENTIALS_PATH w) r1,
            PrintErr ([10007] @ ascii '' Failed to authenticate with GEE: '' @ str e)])
      | Inr credentials \<Rightarrow>
          (let r2 = Initialize w credentials PROJECT_ID in
           case r2 of
             Inl e \<Rightarrow>
               (False,
                [CallServiceAccountCredentials SERVICE_ACCOUNT (CREDENTIALS_PATH w) r1,
                 CallInitialize credentials PROJECT_ID r2,
                 PrintErr ([10007] @ ascii '' Failed to authenticate with GEE: '' @ str e)])
           | Inr u \<Rightarrow>
               (True,
                [CallServiceAccountCredentials SERVICE_ACCOUNT (CREDENTIALS_PATH w) r1,
                 CallInitialize credentials PROJECT_ID r2,
                 PrintErr ([10003]
                   @ ascii '' Successfully authenticated with Google Earth Engine'')])))"

subsection \<open>\<open>get_census_tracts_layer\<close> (the same in both scripts)\<close>

definition get_census_tracts_layer :: "world \<Rightarrow> (exn + styled_layer) \<times> effect list" where
  "get_census_tracts_layer w =
     (let r1 = FeatureCollection w TRACTS_ID in
      case r1 of
        Inl e \<Rightarrow> (Inl e, [CallFeatureCollection TRACTS_ID r1])
      | Inr tracts \<Rightarrow>
          (let r2 = style w tracts tracts_style in
           (r2, [CallFeatureCollection TRACTS_ID r1, CallStyle tracts tracts_style r2])))"

subsection \<open>\<open>get_block_groups_layer\<close> (dual-layer script)\<close>

text \<open>
  The nested \<open>try\<close>/\<open>except:\<close> around the first two fetches; the third fetch is outside
  any handler of this function, so its exception leaves the function.
\<close>

definition fetch_block_groups :: "world \<Rightarrow> (exn + feature_collection) \<times> effect list" where
  "fetch_block_groups w =
     (let r1 = FeatureCollection w BG_ID in
      case r1 of
        Inr block_groups \<Rightarrow>
          (Inr block_groups,
           [CallFeatureCollection BG_ID r1,
            PrintErr ([10003] @ ascii '' Using TIGER/2010/BG dataset'')])
      | Inl e1 \<Rightarrow>
          (let r2 = FeatureCollection w BLOCKGROUPS_ID in
           case r2 of
             Inr block_groups \<Rightarrow>
               (Inr block_groups,
                [CallFeatureCollection BG_ID r1,
                 CallFeatureCollection BLOCKGROUPS_ID r2,
                 PrintErr ([10003] @ ascii '' Using TIGER/2010/BlockGroups dataset'')])
           | Inl e2 \<Rightarrow>
               (let r3 = FeatureCollection w BLOCKS_ID in
                (r3,
                 [CallFeatureCollection BG_ID r1,
                  CallFeatureCollection BLOCKGROUPS_ID r2,
                  PrintErr ([9888] @ ascii '' Block groups dataset not found, using blocks''),
                  CallFeatureCollection BLOCKS_ID r3]))))"

definition get_block_groups_layer :: "world \<Rightarrow> (exn + styled_layer) \<times> effect list" where
  "get_block_groups_layer w =
     (case fetch_block_groups w of
        (Inl e, fx) \<Rightarrow> (Inl e, fx)
      | (Inr block_groups, fx) \<Rightarrow>
          (let r = style w block_groups block_groups_style in
           (r, fx @ [CallStyle block_groups block_groups_style r])))"

subsection \<open>Reading the response of \<open>getMapId\<close>\<close>

definition get_tile_fetcher :: "map_id_dict \<Rightarrow> exn + tile_fetcher" where
  \<comment> \<open>\<open>map_id_dict['tile_fetcher']\<close>\<close>
  "get_tile_fetcher m =
     (case tile_fetcher m of None \<Rightarrow> Inl (KeyError ''tile_fetcher'') | Some f \<Rightarrow> Inr f)"

definition get_mapid :: "map_id_dict \<Rightarrow> pystr" where
  \<comment> \<open>\<open>map_id_dict.get('mapid', 'unknown')\<close>\<close>
  "get_mapid m = (case mapid m of None \<Rightarrow> ascii ''unknown'' | Some i \<Rightarrow> i)"

subsection \<open>\<open>generate_tile_url\<close> and \<open>main\<close> of \<open>generate_gee_tiles.py\<close>\<close>

text \<open>The body of the \<open>try\<close>: an exception of any step ends it.\<close>

definition generate_tile_url_try :: "world \<Rightarrow> (exn + pyval) \<times> effect list" where
  "generate_tile_url_try w =
     (case get_census_tracts_layer w of
        (Inl e, fx) \<Rightarrow> (Inl e, fx)
      | (Inr layer, fx) \<Rightarrow>
          (let r = getMapId w layer in
           case r of
             Inl e \<Rightarrow> (Inl e, fx @ [CallGetMapId layer r])
           | Inr map_id_dict \<Rightarrow>
               (case get_tile_fetcher map_id_dict of
                  Inl e \<Rightarrow> (Inl e, fx @ [CallGetMapId layer r])
                | Inr f \<Rightarrow>
                    (Inr (PDict [(''success'', PBool True),
                                 (''tile_url'', PStr (url_format f)),
                                 (''map_id'', PStr (get_mapid map_id_dict))]),
                     fx @ [CallGetMapId layer r]))))"

definition generate_tile_url :: "world \<Rightarrow> pyval \<times> effect list" where
  "generate_tile_url w =
     (case generate_tile_url_try w of
        (Inr result, fx) \<Rightarrow> (result, fx)
      | (Inl e, fx) \<Rightarrow> (PDict [(''success'', PBool False), (''error'', PStr (str e))], fx))"

text \<open>
  A process: what it did, its exit code, and the exception that ended it when one
  reached the top level (the interpreter then prints a traceback and exits with 1).
  \<open>sys.exit(1)\<close> ends the process with code 1; returning from \<open>main\<close> ends it with 0.
\<close>

record process =
  effects :: "effect list"
  exit_code :: int
  uncaught :: "exn option"

fun format_value :: "world \<Rightarrow> pyval \<Rightarrow> pystr" where
  \<comment> \<open>a value inside an f-string\<close>
  "format_value w (PStr s) = s"
| "format_value w (PBool b) = (if b then ascii ''True'' else ascii ''False'')"
| "format_value w (PDict kvs) = str_dict w kvs"

definition main :: "world \<Rightarrow> process" where
  "main w =
     (case authenticate_gee w of
        (False, fx1) \<Rightarrow> \<lparr>effects = fx1, exit_code = 1, uncaught = None\<rparr>
      | (True, fx1) \<Rightarrow>
          (let fx2 = fx1 @ [PrintErr
                 (ascii ''Generating GEE tile URL for census tract boundaries...'')] in
           case generate_tile_url w of (result, fx3) \<Rightarrow>
             (case subscript result ''success'' of
                Inl e \<Rightarrow> \<lparr>effects = fx2 @ fx3, exit_code = 1, uncaught = Some e\<rparr>
              | Inr ok \<Rightarrow>
                  if truthy ok then
                    \<lparr>effects = fx2 @ fx3 @
                       [PrintErr ([10003] @ ascii '' Tile URL generated successfully''),
                        PrintOut (json_dumps result)],
                     exit_code = 0, uncaught = None\<rparr>
                  else
                    (case subscript result ''error'' of
                       Inl e \<Rightarrow> \<lparr>effects = fx2 @ fx3, exit_code = 1, uncaught = Some e\<rparr>
                     | Inr err \<Rightarrow>
                         \<lparr>effects = fx2 @ fx3 @
                            [PrintErr ([10007] @ ascii '' Failed to generate tile URL: ''
                               @ format_value w err)],
                          exit_code = 1, uncaught = None\<rparr>))))"

subsection \<open>\<open>generate_tile_urls\<close> and \<open>main\<close> of \<open>generate_gee_tiles_full.py\<close>\<close>

text \<open>
  The two blocks of \<open>generate_tile_urls\<close> do the same with a layer: ask for its map id
  and build the entry \<open>{'tile_url': ..., 'map_id': ...}\<close>.
\<close>

definition tile_entry :: "world \<Rightarrow> styled_layer \<Rightarrow> (exn + pyval) \<times> effect list" where
  "tile_entry w layer =
     (let r = getMapId w layer in
      case r of
        Inl e \<Rightarrow> (Inl e, [CallGetMapId layer r])
      | Inr m \<Rightarrow>
          (case get_tile_fetcher m of
             Inl e \<Rightarrow> (Inl e, [CallGetMapId layer r])
           | Inr f \<Rightarrow>
               (Inr (PDict [(''tile_url'', PStr (url_format f)),
                            (''map_id'', PStr (get_mapid m))]),
                [CallGetMapId layer r])))"

definition generate_tile_urls_try :: "world \<Rightarrow> (exn + pyval) \<times> effect list" where
  "generate_tile_urls_try w =
     (let fx0 = [PrintErr (ascii ''Generating tile URL for census tracts...'')] in
      case get_census_tracts_layer w of
        (Inl e, fx1) \<Rightarrow> (Inl e, fx0 @ fx1)
      | (Inr tracts_layer, fx1) \<Rightarrow>
          (case tile_entry w tracts_layer of
             (Inl e, fx2) \<Rightarrow> (Inl e, fx0 @ fx1 @ fx2)
           | (Inr tracts, fx2) \<Rightarrow>
               (let fx3 = fx0 @ fx1 @ fx2 @
                      [PrintErr ([10003] @ ascii '' Census tracts tile URL generated''),
                       PrintErr (ascii ''Generating tile URL for block groups...'')] in
                case get_block_groups_layer w of
                  (Inl e, fx4) \<Rightarrow> (Inl e, fx3 @ fx4)
                | (Inr bg_layer, fx4) \<Rightarrow>
                    (case tile_entry w bg_layer of
                       (Inl e, fx5) \<Rightarrow> (Inl e, fx3 @ fx4 @ fx5)
                     | (Inr block_groups, fx5) \<Rightarrow>
                         (Inr (PDict [(''success'', PBool True),
                                      (''data'', PDict [(''tracts'', tracts),
                                                        (''block_groups'', block_groups)])]),
                          fx3 @ fx4 @ fx5 @
                            [PrintErr ([10003]
                               @ ascii '' Block groups tile URL generated'')])))))"

definition generate_tile_urls :: "world \<Rightarrow> pyval \<times> effect list" where
  "generate_tile_urls w =
     (case generate_tile_urls_try w of
        (Inr result, fx) \<Rightarrow> (result, fx)
      | (Inl e, fx) \<Rightarrow> (PDict [(''success'', PBool False), (''error'', PStr (str e))], fx))"

definition subscript3 :: "pyval \<Rightarrow> string \<Rightarrow> string \<Rightarrow> string \<Rightarrow> exn + pyval" where
  \<comment> \<open>\<open>d[a][b][c]\<close>\<close>
  "subscript3 d a b c =
     (case subscript d a of
        Inl e \<Rightarrow> Inl e
      | Inr x \<Rightarrow> (case subscript x b of Inl e \<Rightarrow> Inl e | Inr y \<Rightarrow> subscript y c))"

definition build_output :: "pyval \<Rightarrow> exn + pyval" where
  \<comment> \<open>the dict display \<open>output = {...}\<close>, its values evaluated in order\<close>
  "build_output result =
     (case subscript3 result ''data'' ''tracts'' ''tile_url'' of
        Inl e \<Rightarrow> Inl e
      | Inr v1 \<Rightarrow>
     (case subscript3 result ''data'' ''tracts'' ''map_id'' of
        Inl e \<Rightarrow> Inl e
      | Inr v2 \<Rightarrow>
     (case subscript3 result ''data'' ''block_groups'' ''tile_url'' of
        Inl e \<Rightarrow> Inl e
      | Inr v3 \<Rightarrow>
     (case subscript3 result ''data'' ''block_groups'' ''map_id'' of
        Inl e \<Rightarrow> Inl e
      | Inr v4 \<Rightarrow>
          Inr (PDict [(''success'', PBool True),
                      (''tracts_tile_url'', v1),
                      (''tracts_map_id'', v2),
                      (''block_groups_tile_url'', v3),
                      (''block_groups_map_id'', v4)])))))"

definition main_full :: "world \<Rightarrow> process" where
  "main_full w =
     (case authenticate_gee w of
        (False, fx1) \<Rightarrow> \<lparr>effects = fx1, exit_code = 1, uncaught = None\<rparr>
      | (True, fx1) \<Rightarrow>
          (let fx2 = fx1 @ [PrintErr ([10, 127757]
                 @ ascii '' Generating GEE tile URLs for TIGER/2010 boundaries...'' @ [10])] in
           case generate_tile_urls w of (result, fx3) \<Rightarrow>
             (case subscript result ''success'' of
                Inl e \<Rightarrow> \<lparr>effects = fx2 @ fx3, exit_code = 1, uncaught = Some e\<rparr>
              | Inr ok \<Rightarrow>
                  if truthy ok then
                    (let fx4 = fx2 @ fx3 @ [PrintErr ([10, 9989]
                           @ ascii '' All tile URLs generated successfully'' @ [10])] in
                     case build_output result of
                       Inl e \<Rightarrow> \<lparr>effects = fx4, exit_code = 1, uncaught = Some e\<rparr>
                     | Inr output \<Rightarrow>
                         \<lparr>effects = fx4 @ [PrintOut (json_dumps output)],
                          exit_code = 0, uncaught = None\<rparr>)
                  else
                    (case subscript result ''error'' of
                       Inl e \<Rightarrow> \<lparr>effects = fx2 @ fx3, exit_code = 1, uncaught = Some e\<rparr>
                     | Inr err \<Rightarrow>
                         \<lparr>effects = fx2 @ fx3 @
                            [PrintErr ([10, 10007] @ ascii '' Failed to generate tile URLs: ''
                               @ format_value w err @ [10])],
                          exit_code = 1, uncaught = None\<rparr>))))"

section \<open>The components as the specification names them\<close>

text \<open>
  The Authenticator's error: the exception of the first platform call that raises
  during authentication, if one does.
\<close>

definition auth_error :: "world \<Rightarrow> exn option" where
  "auth_error w =
     (case ServiceAccountCredentials w SERVICE_ACCOUNT (CREDENTIALS_PATH w) of
        Inl e \<Rightarrow> Some e
      | Inr c \<Rightarrow> (case Initialize w c PROJECT_ID of Inl e \<Rightarrow> Some e | Inr u \<Rightarrow> None))"

text \<open>
  The Layer Resolver, following the specification's algorithm: fetch the candidates in
  order up to the first that fetches without error, style the selected collection, ask
  for its tile descriptor, and return the Tile Result. The error of a resolution is the
  exception of the step that raised; when no candidate fetches, that of the last one.
\<close>

record tile_result =
  tile_url :: pystr
  map_id :: pystr

fun select_candidate :: "world \<Rightarrow> pystr \<Rightarrow> pystr list \<Rightarrow> exn + feature_collection" where
  "select_candidate w c [] = FeatureCollection w c"
| "select_candidate w c (d # ds) =
     (case FeatureCollection w c of Inr f \<Rightarrow> Inr f | Inl e \<Rightarrow> select_candidate w d ds)"

definition tile_result_of :: "world \<Rightarrow> styled_layer \<Rightarrow> exn + tile_result" where
  "tile_result_of w layer =
     (case getMapId w layer of
        Inl e \<Rightarrow> Inl e
      | Inr m \<Rightarrow>
          (case get_tile_fetcher m of
             Inl e \<Rightarrow> Inl e
           | Inr f \<Rightarrow> Inr \<lparr>tile_url = url_format f, map_id = get_mapid m\<rparr>))"

definition resolve :: "world \<Rightarrow> pystr \<Rightarrow> pystr list \<Rightarrow> style_params \<Rightarrow> exn + tile_result" where
  "resolve w c ds sty =
     (case select_candidate w c ds of
        Inl e \<Rightarrow> Inl e
      | Inr collection \<Rightarrow>
          (case style w collection sty of
             Inl e \<Rightarrow> Inl e
           | Inr layer \<Rightarrow> tile_result_of w layer))"

definition resolve_tracts :: "world \<Rightarrow> exn + tile_result" where
  "resolve_tracts w = resolve w TRACTS_ID [] tracts_style"

definition resolve_block_groups :: "world \<Rightarrow> exn + tile_result" where
  "resolve_block_groups w = resolve w BG_ID [BLOCKGROUPS_ID, BLOCKS_ID] block_groups_style"

text \<open>The two shapes of a Run Result, and the JSON objects of the two scripts.\<close>

definition failure_result :: "exn \<Rightarrow> pyval" where
  "failure_result e = PDict [(''success'', PBool False), (''error'', PStr (str e))]"



definition single_object :: "tile_result \<Rightarrow> pyval" where
  "single_object t =
     PDict [(''success'', PBool True),
            (''tile_url'', PStr (tile_url t)),
            (''map_id'', PStr (map_id t))]"

definition dual_object :: "tile_result \<Rightarrow> tile_result \<Rightarrow> pyval" where
  "dual_object t b =
     PDict [(''success'', PBool True),
            (''tracts_tile_url'', PStr (tile_url t)),
            (''tracts_map_id'', PStr (map_id t)),
            (''block_groups_tile_url'', PStr (tile_url b)),
            (''block_groups_map_id'', PStr (map_id b))]"

section \<open>Example worlds\<close>

text \<open>
  Concrete platforms on which the scripts are run below: one where everything works
  and returns the tile URL \<open>https://example.com/{z}/{x}/{y}.png\<close> and the map id
  \<open>abc123\<close>, and variations of it where the credential file is missing, where the
  first block-group dataset or all of them cannot be fetched, where the responses lack
  \<open>'mapid'\<close>, where only the tracts layer gets a tile descriptor, where no dataset can
  be fetched, and where a dataset that the scripts never request is missing.
\<close>

definition example_dict :: map_id_dict where
  "example_dict =
     \<lparr>tile_fetcher = Some \<lparr>url_format = ascii ''https://example.com/{z}/{x}/{y}.png''\<rparr>,
      mapid = Some (ascii ''abc123'')\<rparr>"

definition working_world :: world where
  "working_world =
     \<lparr>CREDENTIALS_PATH = ascii ''scripts/../gee_creds.json'',
      ServiceAccountCredentials = (\<lambda>account key_file. Inr (Credentials 0)),
      Initialize = (\<lambda>c project. Inr ()),
      FeatureCollection = (\<lambda>i. Inr (Collection (length i))),
      style = (\<lambda>c p. case c of Collection n \<Rightarrow> Inr (Layer n)),
      getMapId = (\<lambda>l. Inr example_dict),
      str_dict = (\<lambda>kvs. [])\<rparr>"

definition no_credentials_world :: world where
  "no_credentials_world =
     working_world\<lparr>ServiceAccountCredentials :=
       (\<lambda>account key_file. Inl (Exception (ascii ''No such file or directory'')))\<rparr>"

definition fallback_world :: world where
  "fallback_world =
     working_world\<lparr>FeatureCollection :=
       (\<lambda>i. if i = BG_ID then Inl (Exception (ascii ''asset not found''))
            else Inr (Collection (length i)))\<rparr>"


definition no_mapid_world :: world where
  "no_mapid_world =
     working_world\<lparr>getMapId := (\<lambda>l. Inr (example_dict\<lparr>mapid := None\<rparr>))\<rparr>"

definition quota_world :: world where
  "quota_world =
     working_world\<lparr>getMapId :=
       (\<lambda>l. if l = Layer 21 then Inr example_dict
            else Inl (Exception (ascii ''quota exceeded'')))\<rparr>"

definition offline_world :: world where
  "offline_world =
     working_world\<lparr>FeatureCollection :=
       (\<lambda>i. Inl (Exception (ascii ''network unreachable'')))\<rparr>"

definition other_world :: world where
  "other_world =
     working_world\<lparr>FeatureCollection :=
       (\<lambda>i. if i = ascii ''TIGER/2020/BG'' then Inl (Exception (ascii ''asset not found''))
            else Inr (Collection (length i)))\<rparr>"

section \<open>Auxiliary notions\<close>

text \<open>The entry of one layer and the dict that \<open>generate_tile_urls\<close> returns on success.\<close>

definition entry_of :: "tile_result \<Rightarrow> pyval" where
  "entry_of t = PDict [(''tile_url'', PStr (tile_url t)), (''map_id'', PStr (map_id t))]"

definition full_result :: "tile_result \<Rightarrow> tile_result \<Rightarrow> pyval" where
  "full_result t b =
     PDict [(''success'', PBool True),
            (''data'', PDict [(''tracts'', entry_of t), (''block_groups'', entry_of b)])]"

text \<open>The calls that belong to authentication.\<close>

fun is_auth_call :: "effect \<Rightarrow> bool" where
  "is_auth_call (CallServiceAccountCredentials a k r) = True"
| "is_auth_call (CallInitialize c p r) = True"
| "is_auth_call e = False"



text \<open>
  A printed text that can be a JSON object: it opens with a brace and closes with one.
  Every rendering of a dict by \<open>json_dumps\<close> is such a text.
\<close>

definition is_json_object_text :: "pystr \<Rightarrow> bool" where
  "is_json_object_text t = (t \<noteq> [] \<and> hd t = 123 \<and> last t = 125)"

text \<open>
  The responses to \<open>getMapId\<close> in a list of effects, and what each script prints to
  standard output as a function of them.
\<close>

fun map_id_responses :: "effect list \<Rightarrow> (exn + map_id_dict) list" where
  "map_id_responses [] = []"
| "map_id_responses (CallGetMapId l r # es) = r # map_id_responses es"
| "map_id_responses (e # es) = map_id_responses es"

fun printed_single :: "(exn + map_id_dict) list \<Rightarrow> pystr list" where
  "printed_single [Inr m] =
     (case get_tile_fetcher m of
        Inl e \<Rightarrow> []
      | Inr f \<Rightarrow> [json_dumps (single_object \<lparr>tile_url = url_format f, map_id = get_mapid m\<rparr>)])"
| "printed_single rs = []"

fun printed_full :: "(exn + map_id_dict) list \<Rightarrow> pystr list" where
  "printed_full [Inr m1, Inr m2] =
     (case get_tile_fetcher m1 of
        Inl e \<Rightarrow> []
      | Inr f1 \<Rightarrow>
          (case get_tile_fetcher m2 of
             Inl e \<Rightarrow> []
           | Inr f2 \<Rightarrow>
               [json_dumps (dual_object \<lparr>tile_url = url_format f1, map_id = get_mapid m1\<rparr>
                                        \<lparr>tile_url = url_format f2, map_id = get_mapid m2\<rparr>)]))"
| "printed_full rs = []"

section \<open>Basic facts\<close>

subsection \<open>Projections of a list of effects\<close>

lemma stdout_append: "stdout (xs @ ys) = stdout xs @ stdout ys"
  by (induction xs rule: stdout.induct) simp_all

lemma stderr_append: "stderr (xs @ ys) = stderr xs @ stderr ys"
  by (induction xs rule: stderr.induct) simp_all

lemma fetched_append: "fetched (xs @ ys) = fetched xs @ fetched ys"
  by (induction xs rule: fetched.induct) simp_all

subsection \<open>The Authenticator\<close>

lemma authenticate_gee_fst: "fst (authenticate_gee w) = (auth_error w = None)"
  by (simp add: authenticate_gee_def auth_error_def Let_def split: sum.splits)

lemma authenticate_gee_stdout: "stdout (snd (authenticate_gee w)) = []"
  by (simp add: authenticate_gee_def Let_def split: sum.splits)

lemma authenticate_gee_stderr:
  "stderr (snd (authenticate_gee w)) =
     [case auth_error w of
        None \<Rightarrow> [10003] @ ascii '' Successfully authenticated with Google Earth Engine''
      | Some e \<Rightarrow> [10007] @ ascii '' Failed to authenticate with GEE: '' @ str e]"
  by (simp add: authenticate_gee_def auth_error_def Let_def split: sum.splits)

lemma authenticate_gee_resolver: "filter is_resolver_call (snd (authenticate_gee w)) = []"
  by (simp add: authenticate_gee_def Let_def split: sum.splits)

subsection \<open>The layers\<close>

lemma tracts_layer_fst:
  "fst (get_census_tracts_layer w) =
     (case select_candidate w TRACTS_ID [] of
        Inl e \<Rightarrow> Inl e | Inr c \<Rightarrow> style w c tracts_style)"
  by (simp add: get_census_tracts_layer_def Let_def split: sum.splits)

lemma tracts_layer_stdout: "stdout (snd (get_census_tracts_layer w)) = []"
  by (simp add: get_census_tracts_layer_def Let_def split: sum.splits)


lemma fetch_block_groups_fst:
  "fst (fetch_block_groups w) = select_candidate w BG_ID [BLOCKGROUPS_ID, BLOCKS_ID]"
  by (simp add: fetch_block_groups_def Let_def split: sum.splits)

lemma fetch_block_groups_stdout: "stdout (snd (fetch_block_groups w)) = []"
  by (simp add: fetch_block_groups_def Let_def split: sum.splits)

lemma block_groups_layer_fst:
  "fst (get_block_groups_layer w) =
     (case select_candidate w BG_ID [BLOCKGROUPS_ID, BLOCKS_ID] of
        Inl e \<Rightarrow> Inl e | Inr c \<Rightarrow> style w c block_groups_style)"
  using fetch_block_groups_fst [of w]
  by (cases "fetch_block_groups w")
     (simp add: get_block_groups_layer_def Let_def split: sum.splits)

lemma block_groups_layer_stdout: "stdout (snd (get_block_groups_layer w)) = []"
  using fetch_block_groups_stdout [of w]
  by (cases "fetch_block_groups w")
     (simp add: get_block_groups_layer_def Let_def stdout_append split: sum.splits)

lemma tile_entry_fst:
  "fst (tile_entry w l) =
     (case tile_result_of w l of Inl e \<Rightarrow> Inl e | Inr t \<Rightarrow> Inr (entry_of t))"
  by (simp add: tile_entry_def tile_result_of_def entry_of_def Let_def split: sum.splits)

lemma tile_entry_stdout: "stdout (snd (tile_entry w l)) = []"
  by (simp add: tile_entry_def Let_def split: sum.splits)

subsection \<open>The generation step of the dual-layer script\<close>

lemma generate_tile_urls_try_fst:
  "fst (generate_tile_urls_try w) =
     (case resolve_tracts w of
        Inl e \<Rightarrow> Inl e
      | Inr t \<Rightarrow>
          (case resolve_block_groups w of
             Inl e \<Rightarrow> Inl e
           | Inr b \<Rightarrow> Inr (full_result t b)))"
  by (simp add: generate_tile_urls_try_def split_beta Let_def tracts_layer_fst
        block_groups_layer_fst tile_entry_fst resolve_tracts_def resolve_block_groups_def
        resolve_def full_result_def
      del: select_candidate.simps split: sum.splits)

lemma generate_tile_urls_try_stdout: "stdout (snd (generate_tile_urls_try w)) = []"
  by (simp add: generate_tile_urls_try_def split_beta Let_def stdout_append
        tracts_layer_stdout block_groups_layer_stdout tile_entry_stdout split: sum.splits)

lemma generate_tile_urls_fst:
  "fst (generate_tile_urls w) =
     (case resolve_tracts w of
        Inl e \<Rightarrow> failure_result e
      | Inr t \<Rightarrow>
          (case resolve_block_groups w of
             Inl e \<Rightarrow> failure_result e
           | Inr b \<Rightarrow> full_result t b))"
  by (simp add: generate_tile_urls_def split_beta generate_tile_urls_try_fst failure_result_def
      split: sum.splits)

lemma generate_tile_urls_snd: "snd (generate_tile_urls w) = snd (generate_tile_urls_try w)"
  by (simp add: generate_tile_urls_def split_beta split: sum.splits)

lemma build_output_full_result: "build_output (full_result t b) = Inr (dual_object t b)"
  by (simp add: build_output_def subscript3_def full_result_def entry_of_def dual_object_def)

lemma subscript_failure_result:
  "subscript (failure_result e) ''success'' = Inr (PBool False)"
  "subscript (failure_result e) ''error'' = Inr (PStr (str e))"
  by (simp_all add: failure_result_def)

lemma subscript_full_result: "subscript (full_result t b) ''success'' = Inr (PBool True)"
  by (simp add: full_result_def)


subsection \<open>The generation step of the single-layer script\<close>

lemma generate_tile_url_try_fst:
  "fst (generate_tile_url_try w) =
     (case resolve_tracts w of Inl e \<Rightarrow> Inl e | Inr t \<Rightarrow> Inr (single_object t))"
  by (simp add: generate_tile_url_try_def split_beta Let_def tracts_layer_fst
        resolve_tracts_def resolve_def tile_result_of_def single_object_def
      del: select_candidate.simps split: sum.splits)

lemma generate_tile_url_try_stdout: "stdout (snd (generate_tile_url_try w)) = []"
  by (simp add: generate_tile_url_try_def split_beta Let_def stdout_append
        tracts_layer_stdout split: sum.splits)

lemma generate_tile_url_fst:
  "fst (generate_tile_url w) =
     (case resolve_tracts w of Inl e \<Rightarrow> failure_result e | Inr t \<Rightarrow> single_object t)"
  by (simp add: generate_tile_url_def split_beta generate_tile_url_try_fst failure_result_def
      split: sum.splits)

lemma generate_tile_url_snd: "snd (generate_tile_url w) = snd (generate_tile_url_try w)"
  by (simp add: generate_tile_url_def split_beta split: sum.splits)

lemma subscript_single_object: "subscript (single_object t) ''success'' = Inr (PBool True)"
  by (simp add: single_object_def)

subsection \<open>The outcomes of a run\<close>

lemma main_auth_failed:
  "\<not> fst (authenticate_gee w) \<Longrightarrow>
   main w = \<lparr>effects = snd (authenticate_gee w), exit_code = 1, uncaught = None\<rparr>"
  by (simp add: main_def split_beta)

lemma main_failed:
  "fst (authenticate_gee w) \<Longrightarrow> resolve_tracts w = Inl e \<Longrightarrow>
   main w =
     \<lparr>effects = snd (authenticate_gee w)
        @ [PrintErr (ascii ''Generating GEE tile URL for census tract boundaries...'')]
        @ snd (generate_tile_url w)
        @ [PrintErr ([10007] @ ascii '' Failed to generate tile URL: '' @ str e)],
      exit_code = 1, uncaught = None\<rparr>"
  by (simp add: main_def split_beta Let_def generate_tile_url_fst subscript_failure_result)

lemma main_ok:
  "fst (authenticate_gee w) \<Longrightarrow> resolve_tracts w = Inr t \<Longrightarrow>
   main w =
     \<lparr>effects = snd (authenticate_gee w)
        @ [PrintErr (ascii ''Generating GEE tile URL for census tract boundaries...'')]
        @ snd (generate_tile_url w)
        @ [PrintErr ([10003] @ ascii '' Tile URL generated successfully''),
           PrintOut (json_dumps (single_object t))],
      exit_code = 0, uncaught = None\<rparr>"
  by (simp add: main_def split_beta Let_def generate_tile_url_fst subscript_single_object)

lemma main_full_auth_failed:
  "\<not> fst (authenticate_gee w) \<Longrightarrow>
   main_full w = \<lparr>effects = snd (authenticate_gee w), exit_code = 1, uncaught = None\<rparr>"
  by (simp add: main_full_def split_beta)

lemma main_full_failed:
  "fst (authenticate_gee w) \<Longrightarrow> fst (generate_tile_urls w) = failure_result e \<Longrightarrow>
   main_full w =
     \<lparr>effects = snd (authenticate_gee w)
        @ [PrintErr ([10, 127757]
             @ ascii '' Generating GEE tile URLs for TIGER/2010 boundaries...'' @ [10])]
        @ snd (generate_tile_urls w)
        @ [PrintErr ([10, 10007] @ ascii '' Failed to generate tile URLs: '' @ str e @ [10])],
      exit_code = 1, uncaught = None\<rparr>"
  by (simp add: main_full_def split_beta Let_def subscript_failure_result)

lemma main_full_ok:
  "fst (authenticate_gee w) \<Longrightarrow> resolve_tracts w = Inr t \<Longrightarrow>
   resolve_block_groups w = Inr b \<Longrightarrow>
   main_full w =
     \<lparr>effects = snd (authenticate_gee w)
        @ [PrintErr ([10, 127757]
             @ ascii '' Generating GEE tile URLs for TIGER/2010 boundaries...'' @ [10])]
        @ snd (generate_tile_urls w)
        @ [PrintErr ([10, 9989] @ ascii '' All tile URLs generated successfully'' @ [10]),
           PrintOut (json_dumps (dual_object t b))],
      exit_code = 0, uncaught = None\<rparr>"
  by (simp add: main_full_def split_beta Let_def generate_tile_urls_fst subscript_full_result
        build_output_full_result)

subsection \<open>The fallback chain\<close>

lemma ids_distinct: "distinct [TRACTS_ID, BG_ID, BLOCKGROUPS_ID, BLOCKS_ID]"
  by (simp add: TRACTS_ID_def BG_ID_def BLOCKGROUPS_ID_def BLOCKS_ID_def ascii_def)

lemma fetch_block_groups_fetched:
  "fetched (snd (fetch_block_groups w)) =
     (if \<not> isl (FeatureCollection w BG_ID) then [BG_ID]
      else if \<not> isl (FeatureCollection w BLOCKGROUPS_ID) then [BG_ID, BLOCKGROUPS_ID]
      else [BG_ID, BLOCKGROUPS_ID, BLOCKS_ID])"
  by (simp add: fetch_block_groups_def Let_def split: sum.splits)

lemma block_groups_layer_fetched:
  "fetched (snd (get_block_groups_layer w)) = fetched (snd (fetch_block_groups w))"
  by (simp add: get_block_groups_layer_def split_beta Let_def fetched_append split: sum.splits)

subsection \<open>Authentication calls\<close>

lemma authenticate_gee_calls:
  "calls (snd (authenticate_gee w)) =
     (case ServiceAccountCredentials w SERVICE_ACCOUNT (CREDENTIALS_PATH w) of
        Inl e \<Rightarrow>
          [CallServiceAccountCredentials SERVICE_ACCOUNT (CREDENTIALS_PATH w) (Inl e)]
      | Inr c \<Rightarrow>
          [CallServiceAccountCredentials SERVICE_ACCOUNT (CREDENTIALS_PATH w) (Inr c),
           CallInitialize c PROJECT_ID (Initialize w c PROJECT_ID)])"
  by (simp add: authenticate_gee_def calls_def Let_def split: sum.splits)

lemma authenticate_gee_auth_calls:
  "filter is_auth_call (snd (authenticate_gee w)) = calls (snd (authenticate_gee w))"
  by (simp add: authenticate_gee_def calls_def Let_def split: sum.splits)

lemma tracts_layer_auth_calls: "filter is_auth_call (snd (get_census_tracts_layer w)) = []"
  by (simp add: get_census_tracts_layer_def Let_def split: sum.splits)

lemma block_groups_layer_auth_calls: "filter is_auth_call (snd (get_block_groups_layer w)) = []"
  by (simp add: get_block_groups_layer_def fetch_block_groups_def Let_def split: sum.splits)

lemma tile_entry_auth_calls: "filter is_auth_call (snd (tile_entry w l)) = []"
  by (simp add: tile_entry_def Let_def split: sum.splits)

lemma generate_tile_url_auth_calls: "filter is_auth_call (snd (generate_tile_url w)) = []"
  by (simp add: generate_tile_url_snd generate_tile_url_try_def split_beta Let_def
        tracts_layer_auth_calls split: sum.splits)

lemma generate_tile_urls_auth_calls: "filter is_auth_call (snd (generate_tile_urls w)) = []"
  by (simp add: generate_tile_urls_snd generate_tile_urls_try_def split_beta Let_def
        tracts_layer_auth_calls block_groups_layer_auth_calls tile_entry_auth_calls
      split: sum.splits)

lemma main_auth_calls:
  "filter is_auth_call (effects (main w)) = calls (snd (authenticate_gee w))"
proof (cases "fst (authenticate_gee w)")
  case False
  then show ?thesis by (simp add: main_auth_failed authenticate_gee_auth_calls)
next
  case True
  then show ?thesis
    by (cases "resolve_tracts w")
       (simp_all add: main_failed main_ok authenticate_gee_auth_calls
          generate_tile_url_auth_calls)
qed

lemma generate_tile_urls_shape:
  "(\<exists>e. fst (generate_tile_urls w) = failure_result e \<and>
        (resolve_tracts w = Inl e \<or> (\<not> isl (resolve_tracts w) \<and> resolve_block_groups w = Inl e)))
   \<or> (\<exists>t b. resolve_tracts w = Inr t \<and> resolve_block_groups w = Inr b)"
  by (cases "resolve_tracts w"; cases "resolve_block_groups w")
     (simp_all add: generate_tile_urls_fst)

lemma main_full_auth_calls:
  "filter is_auth_call (effects (main_full w)) = calls (snd (authenticate_gee w))"
proof (cases "fst (authenticate_gee w)")
  case False
  then show ?thesis by (simp add: main_full_auth_failed authenticate_gee_auth_calls)
next
  case True
  from generate_tile_urls_shape [of w] consider
      (failed) e where "fst (generate_tile_urls w) = failure_result e"
    | (resolved) t b where "resolve_tracts w = Inr t" "resolve_block_groups w = Inr b"
    by blast
  then show ?thesis
  proof cases
    case failed
    with True show ?thesis
      by (simp add: main_full_failed authenticate_gee_auth_calls generate_tile_urls_auth_calls)
  next
    case resolved
    with True show ?thesis
      by (simp add: main_full_ok authenticate_gee_auth_calls generate_tile_urls_auth_calls)
  qed
qed

subsection \<open>What the generation step prints\<close>




lemma generate_tile_urls_stdout: "stdout (snd (generate_tile_urls w)) = []"
  by (simp add: generate_tile_urls_snd generate_tile_urls_try_stdout)

lemma generate_tile_url_stdout: "stdout (snd (generate_tile_url w)) = []"
  by (simp add: generate_tile_url_snd generate_tile_url_try_stdout)

subsection \<open>Shapes of results\<close>



subsection \<open>Runs in the example worlds\<close>

lemma working_world_auth: "fst (authenticate_gee working_world)"
  by (simp add: authenticate_gee_def working_world_def)

lemma quota_world_auth: "fst (authenticate_gee quota_world)"
  by (simp add: authenticate_gee_def quota_world_def working_world_def)

lemma offline_world_auth: "fst (authenticate_gee offline_world)"
  by (simp add: authenticate_gee_def offline_world_def working_world_def)

lemma working_world_tracts:
  "resolve_tracts working_world =
     Inr \<lparr>tile_url = ascii ''https://example.com/{z}/{x}/{y}.png'', map_id = ascii ''abc123''\<rparr>"
  by (simp add: resolve_tracts_def resolve_def tile_result_of_def get_tile_fetcher_def
        get_mapid_def working_world_def example_dict_def)

lemma working_world_block_groups:
  "resolve_block_groups working_world =
     Inr \<lparr>tile_url = ascii ''https://example.com/{z}/{x}/{y}.png'', map_id = ascii ''abc123''\<rparr>"
  by (simp add: resolve_block_groups_def resolve_def tile_result_of_def get_tile_fetcher_def
        get_mapid_def working_world_def example_dict_def)

lemma quota_world_tracts:
  "resolve_tracts quota_world =
     Inr \<lparr>tile_url = ascii ''https://example.com/{z}/{x}/{y}.png'', map_id = ascii ''abc123''\<rparr>"
  by (simp add: resolve_tracts_def resolve_def tile_result_of_def get_tile_fetcher_def
        get_mapid_def quota_world_def working_world_def example_dict_def TRACTS_ID_def ascii_def)

lemma quota_world_block_groups:
  "resolve_block_groups quota_world = Inl (Exception (ascii ''quota exceeded''))"
  by (simp add: resolve_block_groups_def resolve_def tile_result_of_def
        quota_world_def working_world_def BG_ID_def ascii_def)

lemma offline_world_tracts:
  "resolve_tracts offline_world = Inl (Exception (ascii ''network unreachable''))"
  by (simp add: resolve_tracts_def resolve_def offline_world_def working_world_def)

subsection \<open>Texts of JSON objects\<close>

lemma json_dumps_dict_text: "is_json_object_text (json_dumps (PDict kvs))"
  by (simp add: is_json_object_text_def json_dumps_def ascii_def newline_indent_def)

lemma quota_world_effects:
  "stdout (effects (main_full quota_world)) = [] \<and>
   stderr (effects (main_full quota_world)) =
     [[10003] @ ascii '' Successfully authenticated with Google Earth Engine'',
      [10, 127757] @ ascii '' Generating GEE tile URLs for TIGER/2010 boundaries...'' @ [10],
      ascii ''Generating tile URL for census tracts...'',
      [10003] @ ascii '' Census tracts tile URL generated'',
      ascii ''Generating tile URL for block groups...'',
      [10003] @ ascii '' Using TIGER/2010/BG dataset'',
      [10, 10007] @ ascii '' Failed to generate tile URLs: quota exceeded'' @ [10]]"
  by (simp add: main_full_def generate_tile_urls_def generate_tile_urls_try_def
        get_census_tracts_layer_def get_block_groups_layer_def fetch_block_groups_def
        tile_entry_def get_tile_fetcher_def get_mapid_def authenticate_gee_def
        quota_world_def working_world_def example_dict_def TRACTS_ID_def BG_ID_def
        ascii_def Let_def)

subsection \<open>Failing runs\<close>

lemma main_failed_facts:
  assumes "fst (authenticate_gee w)" and "resolve_tracts w = Inl e"
  shows "fst (generate_tile_url w) = failure_result e"
    and "stdout (effects (main w)) = []"
    and "last (stderr (effects (main w))) =
           [10007] @ ascii '' Failed to generate tile URL: '' @ str e"
    and "exit_code (main w) = 1" and "uncaught (main w) = None"
  using assms
  by (simp_all add: generate_tile_url_fst main_failed stdout_append stderr_append
        authenticate_gee_stdout generate_tile_url_stdout)

lemma main_full_failed_facts:
  assumes "fst (authenticate_gee w)"
    and "resolve_tracts w = Inl e \<or> (\<not> isl (resolve_tracts w) \<and> resolve_block_groups w = Inl e)"
  shows "fst (generate_tile_urls w) = failure_result e"
    and "stdout (effects (main_full w)) = []"
    and "last (stderr (effects (main_full w))) =
           [10, 10007] @ ascii '' Failed to generate tile URLs: '' @ str e @ [10]"
    and "exit_code (main_full w) = 1" and "uncaught (main_full w) = None"
proof -
  show r: "fst (generate_tile_urls w) = failure_result e"
    using assms(2) by (cases "resolve_tracts w") (auto simp add: generate_tile_urls_fst)
  show "stdout (effects (main_full w)) = []"
    and "last (stderr (effects (main_full w))) =
           [10, 10007] @ ascii '' Failed to generate tile URLs: '' @ str e @ [10]"
    and "exit_code (main_full w) = 1" and "uncaught (main_full w) = None"
    using assms(1) r
    by (simp_all add: main_full_failed stdout_append stderr_append
          authenticate_gee_stdout generate_tile_urls_stdout)
qed

subsection \<open>Order of the resolver calls\<close>

lemma resolve_tracts_via_layer:
  "resolve_tracts w =
     (case fst (get_census_tracts_layer w) of Inl e \<Rightarrow> Inl e | Inr l \<Rightarrow> tile_result_of w l)"
  by (simp add: tracts_layer_fst resolve_tracts_def resolve_def
      del: select_candidate.simps split: sum.splits)

lemma resolve_block_groups_via_layer:
  "resolve_block_groups w =
     (case fst (get_block_groups_layer w) of Inl e \<Rightarrow> Inl e | Inr l \<Rightarrow> tile_result_of w l)"
  by (simp add: block_groups_layer_fst resolve_block_groups_def resolve_def
      del: select_candidate.simps split: sum.splits)

lemma filter_resolver_append:
  "filter is_resolver_call (xs @ ys) = filter is_resolver_call xs @ filter is_resolver_call ys"
  by simp

lemma tile_entry_resolver_calls:
  "filter is_resolver_call (snd (tile_entry w l)) = [CallGetMapId l (getMapId w l)]"
  by (simp add: tile_entry_def Let_def split: sum.splits)

lemma generate_tile_urls_resolver_calls:
  assumes "fst (get_census_tracts_layer w) = Inr tlayer" and "fst (tile_entry w tlayer) = Inr x"
    and "fst (get_block_groups_layer w) = Inr blayer"
  shows "filter is_resolver_call (snd (generate_tile_urls w)) =
           filter is_resolver_call (snd (get_census_tracts_layer w))
           @ [CallGetMapId tlayer (getMapId w tlayer)]
           @ filter is_resolver_call (snd (get_block_groups_layer w))
           @ [CallGetMapId blayer (getMapId w blayer)]"
  using assms
  by (simp add: generate_tile_urls_snd generate_tile_urls_try_def split_beta Let_def
        tile_entry_resolver_calls split: sum.splits)

lemma authenticate_gee_fetched: "fetched (snd (authenticate_gee w)) = []"
  by (simp add: authenticate_gee_def Let_def split: sum.splits)

lemma tracts_layer_fetched: "fetched (snd (get_census_tracts_layer w)) = [TRACTS_ID]"
  by (simp add: get_census_tracts_layer_def Let_def split: sum.splits)

lemma tile_entry_fetched: "fetched (snd (tile_entry w l)) = []"
  by (simp add: tile_entry_def Let_def split: sum.splits)

lemma generate_tile_urls_fetched:
  assumes "fst (get_census_tracts_layer w) = Inr tlayer" and "fst (tile_entry w tlayer) = Inr x"
  shows "fetched (snd (generate_tile_urls w)) =
           TRACTS_ID # fetched (snd (get_block_groups_layer w))"
  using assms
  by (simp add: generate_tile_urls_snd generate_tile_urls_try_def split_beta Let_def
        fetched_append tracts_layer_fetched tile_entry_fetched split: sum.splits)

subsection \<open>The rendering of the dual-layer object\<close>

lemma json_dumps_dual_object:
  "json_dumps (dual_object t b) =
     ascii ''{'' @ [10]
     @ ascii ''  '' @ [34] @ ascii ''success'' @ [34] @ ascii '': true,'' @ [10]
     @ ascii ''  '' @ [34] @ ascii ''tracts_tile_url'' @ [34] @ ascii '': ''
       @ encode_basestring_ascii (tile_url t) @ ascii '','' @ [10]
     @ ascii ''  '' @ [34] @ ascii ''tracts_map_id'' @ [34] @ ascii '': ''
       @ encode_basestring_ascii (map_id t) @ ascii '','' @ [10]
     @ ascii ''  '' @ [34] @ ascii ''block_groups_tile_url'' @ [34] @ ascii '': ''
       @ encode_basestring_ascii (tile_url b) @ ascii '','' @ [10]
     @ ascii ''  '' @ [34] @ ascii ''block_groups_map_id'' @ [34] @ ascii '': ''
       @ encode_basestring_ascii (map_id b) @ [10]
     @ ascii ''}''"
proof -
  have keys:
    "encode_basestring_ascii (ascii ''success'') = [34] @ ascii ''success'' @ [34]"
    "encode_basestring_ascii (ascii ''tracts_tile_url'') = [34] @ ascii ''tracts_tile_url'' @ [34]"
    "encode_basestring_ascii (ascii ''tracts_map_id'') = [34] @ ascii ''tracts_map_id'' @ [34]"
    "encode_basestring_ascii (ascii ''block_groups_tile_url'') =
       [34] @ ascii ''block_groups_tile_url'' @ [34]"
    "encode_basestring_ascii (ascii ''block_groups_map_id'') =
       [34] @ ascii ''block_groups_map_id'' @ [34]"
    by code_simp+
  have indent: "newline_indent (Suc 0) = [10] @ ascii ''  ''" "newline_indent 0 = [10]"
    by (simp_all add: newline_indent_def ascii_def numeral_2_eq_2)
  show ?thesis
    unfolding json_dumps_def dual_object_def
    by (simp add: keys indent) (simp add: ascii_def)
qed

subsection \<open>Standard output as a function of the responses\<close>

lemma map_id_responses_append:
  "map_id_responses (xs @ ys) = map_id_responses xs @ map_id_responses ys"
  by (induction xs rule: map_id_responses.induct) simp_all

lemma map_id_responses_calls: "map_id_responses (calls es) = map_id_responses es"
  by (induction es rule: map_id_responses.induct) (simp_all add: calls_def)

lemma authenticate_gee_responses: "map_id_responses (snd (authenticate_gee w)) = []"
  by (simp add: authenticate_gee_def Let_def split: sum.splits)

lemma tracts_layer_responses: "map_id_responses (snd (get_census_tracts_layer w)) = []"
  by (simp add: get_census_tracts_layer_def Let_def split: sum.splits)

lemma block_groups_layer_responses: "map_id_responses (snd (get_block_groups_layer w)) = []"
  by (simp add: get_block_groups_layer_def fetch_block_groups_def Let_def split: sum.splits)

lemma tile_entry_responses: "map_id_responses (snd (tile_entry w l)) = [getMapId w l]"
  by (simp add: tile_entry_def Let_def split: sum.splits)

lemma generate_tile_url_printed:
  "printed_single (map_id_responses (snd (generate_tile_url w))) =
     (case resolve_tracts w of Inl e \<Rightarrow> [] | Inr t \<Rightarrow> [json_dumps (single_object t)])"
  by (simp add: generate_tile_url_snd generate_tile_url_try_def split_beta Let_def
        map_id_responses_append tracts_layer_responses resolve_tracts_via_layer
        tile_result_of_def
      split: sum.splits)

lemma generate_tile_urls_printed:
  "printed_full (map_id_responses (snd (generate_tile_urls w))) =
     (case resolve_tracts w of
        Inl e \<Rightarrow> []
      | Inr t \<Rightarrow>
          (case resolve_block_groups w of
             Inl e \<Rightarrow> []
           | Inr b \<Rightarrow> [json_dumps (dual_object t b)]))"
  by (auto simp add: generate_tile_urls_snd generate_tile_urls_try_def split_beta Let_def
        map_id_responses_append tracts_layer_responses block_groups_layer_responses
        tile_entry_responses tile_entry_fst
        resolve_tracts_via_layer resolve_block_groups_via_layer tile_result_of_def
      split: sum.splits)

lemma main_stdout_from_calls:
  "stdout (effects (main w)) = printed_single (map_id_responses (calls (effects (main w))))"
proof (cases "fst (authenticate_gee w)")
  case False
  then show ?thesis
    by (simp add: map_id_responses_calls main_auth_failed authenticate_gee_stdout
          authenticate_gee_responses)
next
  case True
  then show ?thesis
    using generate_tile_url_printed [of w]
    by (cases "resolve_tracts w")
       (simp_all add: map_id_responses_calls main_failed main_ok stdout_append
          map_id_responses_append authenticate_gee_stdout authenticate_gee_responses
          generate_tile_url_stdout)
qed

lemma main_full_stdout_from_calls:
  "stdout (effects (main_full w)) =
     printed_full (map_id_responses (calls (effects (main_full w))))"
proof (cases "fst (authenticate_gee w)")
  case False
  then show ?thesis
    by (simp add: map_id_responses_calls main_full_auth_failed authenticate_gee_stdout
          authenticate_gee_responses)
next
  case True
  from generate_tile_urls_shape [of w] consider
      (failed) e where "fst (generate_tile_urls w) = failure_result e"
        "resolve_tracts w = Inl e \<or> (\<not> isl (resolve_tracts w) \<and> resolve_block_groups w = Inl e)"
    | (resolved) t b where "resolve_tracts w = Inr t" "resolve_block_groups w = Inr b"
    by blast
  then show ?thesis
  proof cases
    case failed
    from failed(2) have "printed_full (map_id_responses (snd (generate_tile_urls w))) = []"
      by (cases "resolve_tracts w") (auto simp add: generate_tile_urls_printed)
    with True failed(1) show ?thesis
      by (simp add: map_id_responses_calls main_full_failed stdout_append
            map_id_responses_append authenticate_gee_stdout authenticate_gee_responses
            generate_tile_urls_stdout)
  next
    case resolved
    with True generate_tile_urls_printed [of w] show ?thesis
      by (simp add: map_id_responses_calls main_full_ok stdout_append
            map_id_responses_append authenticate_gee_stdout authenticate_gee_responses
            generate_tile_urls_stdout)
  qed
qed

subsection \<open>More runs in the example worlds\<close>

lemma other_world_differs:
  "FeatureCollection other_world (ascii ''TIGER/2020/BG'') \<noteq>
   FeatureCollection working_world (ascii ''TIGER/2020/BG'')"
  by (simp add: other_world_def working_world_def)

lemma other_world_same_calls:
  "calls (effects (main other_world)) = calls (effects (main working_world))"
  "calls (effects (main_full other_world)) = calls (effects (main_full working_world))"
  by (simp_all add: main_def main_full_def generate_tile_url_def generate_tile_url_try_def
        generate_tile_urls_def generate_tile_urls_try_def build_output_def subscript3_def
        get_census_tracts_layer_def get_block_groups_layer_def fetch_block_groups_def
        tile_entry_def get_tile_fetcher_def get_mapid_def authenticate_gee_def
        other_world_def working_world_def example_dict_def calls_def
        TRACTS_ID_def BG_ID_def ascii_def Let_def)

lemma no_mapid_world_facts:
  "fst (authenticate_gee no_mapid_world)"
  "fst (get_census_tracts_layer no_mapid_world) = Inr (Layer 21)"
  "fst (get_block_groups_layer no_mapid_world) = Inr (Layer 13)"
  "getMapId no_mapid_world (Layer 21) = Inr (example_dict\<lparr>mapid := None\<rparr>)"
  "getMapId no_mapid_world (Layer 13) = Inr (example_dict\<lparr>mapid := None\<rparr>)"
  "tile_fetcher (example_dict\<lparr>mapid := None\<rparr>) =
     Some \<lparr>url_format = ascii ''https://example.com/{z}/{x}/{y}.png''\<rparr>"
  "mapid (example_dict\<lparr>mapid := None\<rparr>) = None"
  by (simp_all add: authenticate_gee_def get_census_tracts_layer_def get_block_groups_layer_def
        fetch_block_groups_def no_mapid_world_def working_world_def example_dict_def
        TRACTS_ID_def BG_ID_def ascii_def Let_def)


section \<open>The claims\<close>



text \<open>
  C2. When the Authenticator fails, the run makes no call of the Layer Resolver (no
  fetch, no styling, no request for a tile descriptor), prints nothing to standard
  output and ends with exit code 1. This holds for both scripts.
\<close>

theorem auth_failure_short_circuits:
  assumes "\<not> fst (authenticate_gee w)"
  shows "filter is_resolver_call (effects (main w)) = [] \<and>
         stdout (effects (main w)) = [] \<and>
         exit_code (main w) = 1 \<and>
         filter is_resolver_call (effects (main_full w)) = [] \<and>
         stdout (effects (main_full w)) = [] \<and>
         exit_code (main_full w) = 1"
  using assms
  by (simp add: main_auth_failed main_full_auth_failed authenticate_gee_stdout
        authenticate_gee_resolver)

theorem auth_failure_short_circuits_witness:
  "\<not> fst (authenticate_gee no_credentials_world) \<and>
   filter is_resolver_call (effects (main no_credentials_world)) = [] \<and>
   stdout (effects (main no_credentials_world)) = [] \<and>
   exit_code (main no_credentials_world) = 1 \<and>
   filter is_resolver_call (effects (main_full no_credentials_world)) = [] \<and>
   stdout (effects (main_full no_credentials_world)) = [] \<and>
   exit_code (main_full no_credentials_world) = 1"
proof -
  have h: "\<not> fst (authenticate_gee no_credentials_world)"
    by (simp add: authenticate_gee_def no_credentials_world_def working_world_def)
  show ?thesis using auth_failure_short_circuits [OF h] h by simp
qed

text \<open>
  C3. The block-group resolver goes through its candidates \<open>TIGER/2010/BG\<close>,
  \<open>TIGER/2010/BlockGroups\<close>, \<open>TIGER/2010/Blocks_DP1\<close> in this order: when \<open>c\<close> is the
  first candidate whose fetch does not raise, the collection fetched for \<open>c\<close> is the one
  that is styled, the fetches attempted are exactly the failing candidates before \<open>c\<close>
  followed by \<open>c\<close>, and no candidate after \<open>c\<close> is attempted. The witness is the case
  where the first fetch fails and the second succeeds: the second is selected and the
  third is never attempted.
\<close>

theorem block_groups_first_fetchable_candidate:
  assumes "find (\<lambda>c. \<not> isl (FeatureCollection w c)) [BG_ID, BLOCKGROUPS_ID, BLOCKS_ID] = Some c"
    and "FeatureCollection w c = Inr f"
  shows "fst (get_block_groups_layer w) = style w f block_groups_style \<and>
         fetched (snd (get_block_groups_layer w)) =
           takeWhile (\<lambda>d. isl (FeatureCollection w d)) [BG_ID, BLOCKGROUPS_ID, BLOCKS_ID] @ [c] \<and>
         (\<forall>d \<in> set (drop (Suc (length (takeWhile (\<lambda>d. isl (FeatureCollection w d))
                         [BG_ID, BLOCKGROUPS_ID, BLOCKS_ID])))
                       [BG_ID, BLOCKGROUPS_ID, BLOCKS_ID]).
            d \<notin> set (fetched (snd (get_block_groups_layer w))))"
proof -
  have sel: "select_candidate w BG_ID [BLOCKGROUPS_ID, BLOCKS_ID] = Inr f"
    using assms by (auto split: if_splits sum.splits)
  have first: "fst (get_block_groups_layer w) = style w f block_groups_style"
    by (simp add: block_groups_layer_fst sel del: select_candidate.simps)
  have tried: "fetched (snd (get_block_groups_layer w)) =
      takeWhile (\<lambda>d. isl (FeatureCollection w d)) [BG_ID, BLOCKGROUPS_ID, BLOCKS_ID] @ [c]"
    using assms(1)
    by (auto simp add: block_groups_layer_fetched fetch_block_groups_fetched split: if_splits)
  have later: "\<forall>d \<in> set (drop (Suc (length (takeWhile (\<lambda>d. isl (FeatureCollection w d))
                         [BG_ID, BLOCKGROUPS_ID, BLOCKS_ID])))
                       [BG_ID, BLOCKGROUPS_ID, BLOCKS_ID]).
            d \<notin> set (fetched (snd (get_block_groups_layer w)))"
    using assms(1) ids_distinct
    by (auto simp add: block_groups_layer_fetched fetch_block_groups_fetched split: if_splits)
  from first tried later show ?thesis by blast
qed

theorem block_groups_first_fetchable_candidate_witness:
  "find (\<lambda>c. \<not> isl (FeatureCollection fallback_world c)) [BG_ID, BLOCKGROUPS_ID, BLOCKS_ID]
     = Some BLOCKGROUPS_ID \<and>
   FeatureCollection fallback_world BLOCKGROUPS_ID = Inr (Collection 22) \<and>
   fst (get_block_groups_layer fallback_world) = Inr (Layer 22) \<and>
   fetched (snd (get_block_groups_layer fallback_world)) = [BG_ID, BLOCKGROUPS_ID] \<and>
   BLOCKS_ID \<notin> set (fetched (snd (get_block_groups_layer fallback_world)))"
proof -
  have h1: "find (\<lambda>c. \<not> isl (FeatureCollection fallback_world c))
      [BG_ID, BLOCKGROUPS_ID, BLOCKS_ID] = Some BLOCKGROUPS_ID"
    by (simp add: fallback_world_def working_world_def BG_ID_def BLOCKGROUPS_ID_def ascii_def)
  have h2: "FeatureCollection fallback_world BLOCKGROUPS_ID = Inr (Collection 22)"
    by (simp add: fallback_world_def working_world_def BG_ID_def BLOCKGROUPS_ID_def ascii_def)
  have h3: "isl (FeatureCollection fallback_world BG_ID)"
    by (simp add: fallback_world_def working_world_def)
  have h4: "style fallback_world (Collection 22) block_groups_style = Inr (Layer 22)"
    by (simp add: fallback_world_def working_world_def)
  show ?thesis
    using block_groups_first_fetchable_candidate [OF h1 h2] h1 h2 h3 h4 ids_distinct by auto
qed

text \<open>
  C4, as stated, fails. In the run below authentication succeeds and the block-group
  layer fails, yet nothing that the program prints, on either stream, is a JSON
  object: the failure dict is built by \<open>generate_tile_urls\<close> and consumed by \<open>main\<close>,
  which prints a diagnostic line instead.
\<close>

theorem failure_object_emitted_counterexample:
  "fst (authenticate_gee quota_world) \<and> isl (resolve_block_groups quota_world) \<and>
   exit_code (main_full quota_world) = 1 \<and>
   filter is_json_object_text
     (stdout (effects (main_full quota_world)) @ stderr (effects (main_full quota_world))) = []"
proof -
  have "exit_code (main_full quota_world) = 1"
    using generate_tile_urls_fst [of quota_world]
    by (simp add: main_full_failed quota_world_auth quota_world_tracts quota_world_block_groups)
  then show ?thesis
    by (simp add: quota_world_auth quota_world_block_groups quota_world_effects
          is_json_object_text_def ascii_def)
qed

text \<open>
  C4, amended. When authentication succeeds and a layer resolution fails with the
  exception \<open>e\<close>, the generation step returns the failure dict with \<open>success\<close> false and
  the message of \<open>e\<close>; the program does not print that dict: it prints nothing to
  standard output, its last line on standard error is the failure diagnostic carrying
  the message, and it exits with code 1. This holds for both scripts; in the dual-layer
  script the failing layer is the tracts or, the tracts having resolved, the block
  groups.
\<close>

theorem layer_failure_reported_on_stderr:
  assumes "fst (authenticate_gee w)"
  shows "(resolve_tracts w = Inl e \<longrightarrow>
            fst (generate_tile_url w) =
              PDict [(''success'', PBool False), (''error'', PStr (str e))] \<and>
            stdout (effects (main w)) = [] \<and>
            last (stderr (effects (main w))) =
              [10007] @ ascii '' Failed to generate tile URL: '' @ str e \<and>
            exit_code (main w) = 1 \<and> uncaught (main w) = None) \<and>
         (resolve_tracts w = Inl e \<or>
            (\<not> isl (resolve_tracts w) \<and> resolve_block_groups w = Inl e) \<longrightarrow>
            fst (generate_tile_urls w) =
              PDict [(''success'', PBool False), (''error'', PStr (str e))] \<and>
            stdout (effects (main_full w)) = [] \<and>
            last (stderr (effects (main_full w))) =
              [10, 10007] @ ascii '' Failed to generate tile URLs: '' @ str e @ [10] \<and>
            exit_code (main_full w) = 1 \<and> uncaught (main_full w) = None)"
  using main_failed_facts [OF assms, of e] main_full_failed_facts [OF assms, of e]
  by (simp add: failure_result_def)

theorem layer_failure_reported_on_stderr_witness:
  "fst (authenticate_gee offline_world) \<and>
   resolve_tracts offline_world = Inl (Exception (ascii ''network unreachable'')) \<and>
   fst (generate_tile_url offline_world) =
     PDict [(''success'', PBool False), (''error'', PStr (ascii ''network unreachable''))] \<and>
   stdout (effects (main offline_world)) = [] \<and>
   exit_code (main offline_world) = 1 \<and>
   fst (authenticate_gee quota_world) \<and>
   \<not> isl (resolve_tracts quota_world) \<and>
   resolve_block_groups quota_world = Inl (Exception (ascii ''quota exceeded'')) \<and>
   fst (generate_tile_urls quota_world) =
     PDict [(''success'', PBool False), (''error'', PStr (ascii ''quota exceeded''))] \<and>
   stdout (effects (main_full quota_world)) = [] \<and>
   last (stderr (effects (main_full quota_world))) =
     [10, 10007] @ ascii '' Failed to generate tile URLs: quota exceeded'' @ [10] \<and>
   exit_code (main_full quota_world) = 1"
  using layer_failure_reported_on_stderr
      [OF offline_world_auth, of "Exception (ascii ''network unreachable'')"]
    layer_failure_reported_on_stderr
      [OF quota_world_auth, of "Exception (ascii ''quota exceeded'')"]
    offline_world_auth offline_world_tracts quota_world_auth quota_world_tracts
    quota_world_block_groups
  by (simp add: ascii_def)

text \<open>
  C5. Single-layer script: with a working session and a tract resolution that returns
  the tile URL \<open>https://example.com/{z}/{x}/{y}.png\<close> and the map id \<open>abc123\<close>, the only
  thing printed to standard output is the JSON object with the fields \<open>success\<close> (true),
  \<open>tile_url\<close> and \<open>map_id\<close> in this order, in the rendering of \<open>json.dumps\<close> with an
  indent of 2, which is spelled out; the exit code is 0.
\<close>

theorem single_layer_scenario:
  assumes "fst (authenticate_gee w)"
    and "resolve_tracts w =
           Inr \<lparr>tile_url = ascii ''https://example.com/{z}/{x}/{y}.png'',
                map_id = ascii ''abc123''\<rparr>"
  shows "stdout (effects (main w)) =
           [json_dumps (PDict [(''success'', PBool True),
                               (''tile_url'', PStr (ascii ''https://example.com/{z}/{x}/{y}.png'')),
                               (''map_id'', PStr (ascii ''abc123''))])] \<and>
         json_dumps (PDict [(''success'', PBool True),
                            (''tile_url'', PStr (ascii ''https://example.com/{z}/{x}/{y}.png'')),
                            (''map_id'', PStr (ascii ''abc123''))]) =
           ascii ''{'' @ [10]
           @ ascii ''  '' @ [34] @ ascii ''success'' @ [34] @ ascii '': true,'' @ [10]
           @ ascii ''  '' @ [34] @ ascii ''tile_url'' @ [34] @ ascii '': ''
             @ [34] @ ascii ''https://example.com/{z}/{x}/{y}.png'' @ [34] @ ascii '','' @ [10]
           @ ascii ''  '' @ [34] @ ascii ''map_id'' @ [34] @ ascii '': ''
             @ [34] @ ascii ''abc123'' @ [34] @ [10]
           @ ascii ''}'' \<and>
         exit_code (main w) = 0 \<and> uncaught (main w) = None"
proof -
  have out: "stdout (effects (main w)) =
           [json_dumps (PDict [(''success'', PBool True),
                               (''tile_url'', PStr (ascii ''https://example.com/{z}/{x}/{y}.png'')),
                               (''map_id'', PStr (ascii ''abc123''))])]"
    and code: "exit_code (main w) = 0" "uncaught (main w) = None"
    using assms
    by (simp_all add: main_ok stdout_append authenticate_gee_stdout generate_tile_url_stdout
          single_object_def)
  have rendering: "json_dumps (PDict [(''success'', PBool True),
                            (''tile_url'', PStr (ascii ''https://example.com/{z}/{x}/{y}.png'')),
                            (''map_id'', PStr (ascii ''abc123''))]) =
           ascii ''{'' @ [10]
           @ ascii ''  '' @ [34] @ ascii ''success'' @ [34] @ ascii '': true,'' @ [10]
           @ ascii ''  '' @ [34] @ ascii ''tile_url'' @ [34] @ ascii '': ''
             @ [34] @ ascii ''https://example.com/{z}/{x}/{y}.png'' @ [34] @ ascii '','' @ [10]
           @ ascii ''  '' @ [34] @ ascii ''map_id'' @ [34] @ ascii '': ''
             @ [34] @ ascii ''abc123'' @ [34] @ [10]
           @ ascii ''}''"
    by code_simp
  from out rendering code show ?thesis by blast
qed

theorem single_layer_scenario_witness:
  "fst (authenticate_gee working_world) \<and>
   resolve_tracts working_world =
     Inr \<lparr>tile_url = ascii ''https://example.com/{z}/{x}/{y}.png'', map_id = ascii ''abc123''\<rparr> \<and>
   stdout (effects (main working_world)) =
     [json_dumps (PDict [(''success'', PBool True),
                         (''tile_url'', PStr (ascii ''https://example.com/{z}/{x}/{y}.png'')),
                         (''map_id'', PStr (ascii ''abc123''))])] \<and>
   exit_code (main working_world) = 0"
  using single_layer_scenario [OF working_world_auth working_world_tracts]
    working_world_auth working_world_tracts
  by simp

text \<open>
  C6. Dual-layer script: when authentication succeeds and both layers resolve, the
  tracts to \<open>t\<close> and the block groups to \<open>b\<close>, the only thing printed to standard output
  is the JSON object with the fields \<open>success\<close> (true), \<open>tracts_tile_url\<close>,
  \<open>tracts_map_id\<close>, \<open>block_groups_tile_url\<close>, \<open>block_groups_map_id\<close> in this order, in
  the rendering of \<open>json.dumps\<close> with an indent of 2, which is spelled out; the exit
  code is 0. The layers are resolved in a fixed order: every resolver call for the
  tracts (fetch, style, tile descriptor) comes before every resolver call for the block
  groups, and the first dataset fetched is the tracts'.
\<close>

theorem dual_layer_scenario:
  assumes "fst (authenticate_gee w)"
    and "resolve_tracts w = Inr t" and "resolve_block_groups w = Inr b"
  shows "stdout (effects (main_full w)) =
           [json_dumps (PDict [(''success'', PBool True),
                               (''tracts_tile_url'', PStr (tile_url t)),
                               (''tracts_map_id'', PStr (map_id t)),
                               (''block_groups_tile_url'', PStr (tile_url b)),
                               (''block_groups_map_id'', PStr (map_id b))])] \<and>
         json_dumps (PDict [(''success'', PBool True),
                            (''tracts_tile_url'', PStr (tile_url t)),
                            (''tracts_map_id'', PStr (map_id t)),
                            (''block_groups_tile_url'', PStr (tile_url b)),
                            (''block_groups_map_id'', PStr (map_id b))]) =
           ascii ''{'' @ [10]
           @ ascii ''  '' @ [34] @ ascii ''success'' @ [34] @ ascii '': true,'' @ [10]
           @ ascii ''  '' @ [34] @ ascii ''tracts_tile_url'' @ [34] @ ascii '': ''
             @ encode_basestring_ascii (tile_url t) @ ascii '','' @ [10]
           @ ascii ''  '' @ [34] @ ascii ''tracts_map_id'' @ [34] @ ascii '': ''
             @ encode_basestring_ascii (map_id t) @ ascii '','' @ [10]
           @ ascii ''  '' @ [34] @ ascii ''block_groups_tile_url'' @ [34] @ ascii '': ''
             @ encode_basestring_ascii (tile_url b) @ ascii '','' @ [10]
           @ ascii ''  '' @ [34] @ ascii ''block_groups_map_id'' @ [34] @ ascii '': ''
             @ encode_basestring_ascii (map_id b) @ [10]
           @ ascii ''}'' \<and>
         exit_code (main_full w) = 0 \<and> uncaught (main_full w) = None \<and>
         (\<exists>tlayer blayer.
            fst (get_census_tracts_layer w) = Inr tlayer \<and>
            fst (get_block_groups_layer w) = Inr blayer \<and>
            filter is_resolver_call (effects (main_full w)) =
              filter is_resolver_call (snd (get_census_tracts_layer w))
              @ [CallGetMapId tlayer (getMapId w tlayer)]
              @ filter is_resolver_call (snd (get_block_groups_layer w))
              @ [CallGetMapId blayer (getMapId w blayer)]) \<and>
         fetched (effects (main_full w)) = TRACTS_ID # fetched (snd (get_block_groups_layer w))"
proof -
  from assms(2) obtain tlayer where tlayer: "fst (get_census_tracts_layer w) = Inr tlayer"
    and tr: "tile_result_of w tlayer = Inr t"
    by (auto simp add: resolve_tracts_via_layer split: sum.splits)
  from assms(3) obtain blayer where blayer: "fst (get_block_groups_layer w) = Inr blayer"
    by (auto simp add: resolve_block_groups_via_layer split: sum.splits)
  have te: "fst (tile_entry w tlayer) = Inr (entry_of t)"
    by (simp add: tile_entry_fst tr)
  have out: "stdout (effects (main_full w)) = [json_dumps (dual_object t b)]"
    and code: "exit_code (main_full w) = 0" "uncaught (main_full w) = None"
    using assms
    by (simp_all add: main_full_ok stdout_append authenticate_gee_stdout
          generate_tile_urls_stdout)
  have order: "filter is_resolver_call (effects (main_full w)) =
              filter is_resolver_call (snd (get_census_tracts_layer w))
              @ [CallGetMapId tlayer (getMapId w tlayer)]
              @ filter is_resolver_call (snd (get_block_groups_layer w))
              @ [CallGetMapId blayer (getMapId w blayer)]"
    using assms generate_tile_urls_resolver_calls [OF tlayer te blayer]
    by (simp add: main_full_ok authenticate_gee_resolver)
  have fetches: "fetched (effects (main_full w)) =
      TRACTS_ID # fetched (snd (get_block_groups_layer w))"
    using assms generate_tile_urls_fetched [OF tlayer te]
    by (simp add: main_full_ok fetched_append authenticate_gee_fetched)
  from out code order fetches tlayer blayer json_dumps_dual_object [of t b] show ?thesis
    unfolding dual_object_def by blast
qed

theorem dual_layer_scenario_witness:
  "fst (authenticate_gee working_world) \<and>
   \<not> isl (resolve_tracts working_world) \<and> \<not> isl (resolve_block_groups working_world) \<and>
   exit_code (main_full working_world) = 0 \<and>
   fetched (effects (main_full working_world)) =
     TRACTS_ID # fetched (snd (get_block_groups_layer working_world))"
  using dual_layer_scenario [OF working_world_auth working_world_tracts working_world_block_groups]
    working_world_auth working_world_tracts working_world_block_groups
  by simp

text \<open>
  C7. Authentication is attempted once per run: the authentication calls of a whole
  run, of either script, are those of \<open>authenticate_gee\<close>, which builds the credentials
  once and, if that did not raise, initialises the session once. It prints nothing
  to standard output and exactly one diagnostic to standard error: the success line,
  or, when a call raised, the failure line carrying the message of that exception, in
  which case it reports the failure to its caller.
\<close>

theorem authenticate_gee_single_attempt:
  "filter is_auth_call (effects (main w)) = calls (snd (authenticate_gee w)) \<and>
   filter is_auth_call (effects (main_full w)) = calls (snd (authenticate_gee w)) \<and>
   calls (snd (authenticate_gee w)) =
     (case ServiceAccountCredentials w SERVICE_ACCOUNT (CREDENTIALS_PATH w) of
        Inl e \<Rightarrow>
          [CallServiceAccountCredentials SERVICE_ACCOUNT (CREDENTIALS_PATH w) (Inl e)]
      | Inr c \<Rightarrow>
          [CallServiceAccountCredentials SERVICE_ACCOUNT (CREDENTIALS_PATH w) (Inr c),
           CallInitialize c PROJECT_ID (Initialize w c PROJECT_ID)]) \<and>
   stdout (snd (authenticate_gee w)) = [] \<and>
   (case auth_error w of
      None \<Rightarrow>
        fst (authenticate_gee w) \<and>
        stderr (snd (authenticate_gee w)) =
          [[10003] @ ascii '' Successfully authenticated with Google Earth Engine'']
    | Some e \<Rightarrow>
        \<not> fst (authenticate_gee w) \<and>
        stderr (snd (authenticate_gee w)) =
          [[10007] @ ascii '' Failed to authenticate with GEE: '' @ str e])"
  by (simp add: main_auth_calls main_full_auth_calls authenticate_gee_calls
        authenticate_gee_stdout authenticate_gee_stderr authenticate_gee_fst
      split: option.splits)

text \<open>
  C8. What a run prints to standard output is determined by the responses of the
  platform: two runs, in whatever worlds, whose sequences of platform calls with their
  responses are the same print the same texts to standard output. This holds for both
  scripts. In the witness the two worlds differ on a dataset that is never requested.
\<close>

theorem stdout_determined_by_responses:
  "(calls (effects (main w1)) = calls (effects (main w2)) \<longrightarrow>
      stdout (effects (main w1)) = stdout (effects (main w2))) \<and>
   (calls (effects (main_full w1)) = calls (effects (main_full w2)) \<longrightarrow>
      stdout (effects (main_full w1)) = stdout (effects (main_full w2)))"
  by (simp add: main_stdout_from_calls [of w1] main_stdout_from_calls [of w2]
        main_full_stdout_from_calls [of w1] main_full_stdout_from_calls [of w2])

theorem stdout_determined_by_responses_witness:
  "FeatureCollection other_world (ascii ''TIGER/2020/BG'') \<noteq>
     FeatureCollection working_world (ascii ''TIGER/2020/BG'') \<and>
   calls (effects (main other_world)) = calls (effects (main working_world)) \<and>
   stdout (effects (main other_world)) = stdout (effects (main working_world)) \<and>
   calls (effects (main_full other_world)) = calls (effects (main_full working_world)) \<and>
   stdout (effects (main_full other_world)) = stdout (effects (main_full working_world))"
  using stdout_determined_by_responses [of other_world working_world]
    other_world_differs other_world_same_calls
  by simp

text \<open>
  C9. In a successful run the map identifier in the output JSON is the \<open>'mapid'\<close> entry
  of the tile-descriptor response when there is one and the literal string \<open>unknown\<close>
  when the response lacks it; the tile URL is the \<open>url_format\<close> of the response's tile
  fetcher either way. This holds for the single-layer script and, layer by layer, for
  the dual-layer script. In the witness no response has a \<open>'mapid'\<close> entry.
\<close>

theorem missing_mapid_reported_unknown:
  assumes "fst (authenticate_gee w)"
    and "fst (get_census_tracts_layer w) = Inr tlayer"
    and "getMapId w tlayer = Inr m1" and "tile_fetcher m1 = Some f1"
  shows "stdout (effects (main w)) =
           [json_dumps (PDict [(''success'', PBool True),
                               (''tile_url'', PStr (url_format f1)),
                               (''map_id'', PStr (case mapid m1 of
                                                   None \<Rightarrow> ascii ''unknown''
                                                 | Some i \<Rightarrow> i))])] \<and>
         (fst (get_block_groups_layer w) = Inr blayer \<and> getMapId w blayer = Inr m2 \<and>
          tile_fetcher m2 = Some f2 \<longrightarrow>
            stdout (effects (main_full w)) =
              [json_dumps (PDict [(''success'', PBool True),
                                  (''tracts_tile_url'', PStr (url_format f1)),
                                  (''tracts_map_id'', PStr (case mapid m1 of
                                                              None \<Rightarrow> ascii ''unknown''
                                                            | Some i \<Rightarrow> i)),
                                  (''block_groups_tile_url'', PStr (url_format f2)),
                                  (''block_groups_map_id'', PStr (case mapid m2 of
                                                                    None \<Rightarrow> ascii ''unknown''
                                                                  | Some i \<Rightarrow> i))])])"
proof -
  have tr: "resolve_tracts w = Inr \<lparr>tile_url = url_format f1, map_id = get_mapid m1\<rparr>"
    using assms(2-4)
    by (simp add: resolve_tracts_via_layer tile_result_of_def get_tile_fetcher_def)
  have single: "stdout (effects (main w)) =
      [json_dumps (single_object \<lparr>tile_url = url_format f1, map_id = get_mapid m1\<rparr>)]"
    using assms(1) tr
    by (simp add: main_ok stdout_append authenticate_gee_stdout generate_tile_url_stdout)
  have dual: "stdout (effects (main_full w)) =
      [json_dumps (dual_object \<lparr>tile_url = url_format f1, map_id = get_mapid m1\<rparr>
                               \<lparr>tile_url = url_format f2, map_id = get_mapid m2\<rparr>)]"
    if "fst (get_block_groups_layer w) = Inr blayer" "getMapId w blayer = Inr m2"
      "tile_fetcher m2 = Some f2"
  proof -
    have "resolve_block_groups w = Inr \<lparr>tile_url = url_format f2, map_id = get_mapid m2\<rparr>"
      using that
      by (simp add: resolve_block_groups_via_layer tile_result_of_def get_tile_fetcher_def)
    with assms(1) tr show ?thesis
      by (simp add: main_full_ok stdout_append authenticate_gee_stdout
            generate_tile_urls_stdout)
  qed
  from single dual show ?thesis
    by (simp add: single_object_def dual_object_def get_mapid_def)
qed

theorem missing_mapid_reported_unknown_witness:
  "fst (authenticate_gee no_mapid_world) \<and>
   mapid (example_dict\<lparr>mapid := None\<rparr>) = None \<and>
   stdout (effects (main no_mapid_world)) =
     [json_dumps (PDict [(''success'', PBool True),
                         (''tile_url'', PStr (ascii ''https://example.com/{z}/{x}/{y}.png'')),
                         (''map_id'', PStr (ascii ''unknown''))])] \<and>
   stdout (effects (main_full no_mapid_world)) =
     [json_dumps (PDict [(''success'', PBool True),
                         (''tracts_tile_url'',
                          PStr (ascii ''https://example.com/{z}/{x}/{y}.png'')),
                         (''tracts_map_id'', PStr (ascii ''unknown'')),
                         (''block_groups_tile_url'',
                          PStr (ascii ''https://example.com/{z}/{x}/{y}.png'')),
                         (''block_groups_map_id'', PStr (ascii ''unknown''))])]"
  using missing_mapid_reported_unknown
      [OF no_mapid_world_facts(1) no_mapid_world_facts(2) no_mapid_world_facts(4)
          no_mapid_world_facts(6),
       of "Layer 13" "example_dict\<lparr>mapid := None\<rparr>"
          "\<lparr>url_format = ascii ''https://example.com/{z}/{x}/{y}.png''\<rparr>"]
    no_mapid_world_facts
  by simp



end
